theory Spec2Isabelle
  imports Complex_Main
begin

section \<open>Student career success predictor\<close>

text \<open>
  The backend is Python (FastAPI, pydantic, scikit-learn), the frontend TypeScript (React).
  Python floats and JavaScript numbers are read as real numbers; JavaScript's NaN and
  infinities are kept as values of their own where the code can meet them.  Exceptions are
  values of the type \<open>error\<close>, the module global \<open>_cached_pipeline\<close> and the database
  tables are fields of an explicit state.
\<close>

subsection \<open>Errors\<close>

datatype error =
    ModelNotTrainedError
  | InvalidInputError "string list"
  | IndexError
  | ValueError

text \<open>Python's \<open>xs[i]\<close> for a non-negative index: out of range raises.\<close>

definition getitem :: "'a list \<Rightarrow> nat \<Rightarrow> error + 'a" where
  "getitem xs i = (if i < length xs then Inr (xs ! i) else Inl IndexError)"

text \<open>Applying a fallible function to every row; the first exception wins.\<close>

fun map_rows :: "('a \<Rightarrow> error + 'b) \<Rightarrow> 'a list \<Rightarrow> error + 'b list" where
  "map_rows f [] = Inr []"
| "map_rows f (x # xs) =
     (case f x of
        Inl e \<Rightarrow> Inl e
      | Inr y \<Rightarrow> (case map_rows f xs of Inl e \<Rightarrow> Inl e | Inr ys \<Rightarrow> Inr (y # ys)))"

subsection \<open>The request model \<open>StudentInput\<close>\<close>

record StudentInput =
  University_GPA :: real
  Field_of_Study :: string
  Gender :: string
  Internships_Completed :: int
  Soft_Skills_Score :: real
  Networking_Score :: real

text \<open>
  The JSON body of \<open>POST /predict\<close> before validation: every key may be absent
  (\<open>None\<close>); numeric keys carry JSON numbers, the two categorical keys strings.
\<close>

record RequestBody =
  body_University_GPA :: "real option"
  body_Field_of_Study :: "string option"
  body_Gender :: "string option"
  body_Internships_Completed :: "real option"
  body_Soft_Skills_Score :: "real option"
  body_Networking_Score :: "real option"

text \<open>
  The field constraints of the pydantic model.  A field is either accepted with its value
  or rejected under its name: \<open>float = Field(ge=0, le=10)\<close>, \<open>str = Field(min_length=1)\<close>
  and \<open>int = Field(ge=0)\<close> (a JSON number with a fractional part is not an \<open>int\<close>).
\<close>

definition float_ge0_le10 :: "string \<Rightarrow> real option \<Rightarrow> string + real" where
  "float_ge0_le10 name v =
     (case v of
        None \<Rightarrow> Inl name
      | Some x \<Rightarrow> if 0 \<le> x \<and> x \<le> 10 then Inr x else Inl name)"

definition str_min_length1 :: "string \<Rightarrow> string option \<Rightarrow> string + string" where
  "str_min_length1 name v =
     (case v of
        None \<Rightarrow> Inl name
      | Some s \<Rightarrow> if 1 \<le> length s then Inr s else Inl name)"

definition int_ge0 :: "string \<Rightarrow> real option \<Rightarrow> string + int" where
  "int_ge0 name v =
     (case v of
        None \<Rightarrow> Inl name
      | Some x \<Rightarrow> if of_int \<lfloor>x\<rfloor> = x \<and> 0 \<le> x then Inr \<lfloor>x\<rfloor> else Inl name)"

fun field_errors :: "string + 'a \<Rightarrow> string list" where
  "field_errors (Inl name) = [name]"
| "field_errors (Inr v) = []"

text \<open>
  Validation reports every rejected field, in the order of the model's declaration; the
  record is built only when no field is rejected.
\<close>

fun build_StudentInput ::
  "string + real \<Rightarrow> string + string \<Rightarrow> string + string \<Rightarrow> string + int \<Rightarrow>
   string + real \<Rightarrow> string + real \<Rightarrow> error + StudentInput" where
  "build_StudentInput (Inr g) (Inr f) (Inr ge) (Inr i) (Inr s) (Inr n) =
     Inr \<lparr>University_GPA = g, Field_of_Study = f, Gender = ge,
          Internships_Completed = i, Soft_Skills_Score = s, Networking_Score = n\<rparr>"
| "build_StudentInput g f ge i s n =
     Inl (InvalidInputError
       (field_errors g @ field_errors f @ field_errors ge @
        field_errors i @ field_errors s @ field_errors n))"

definition StudentInput_validate :: "RequestBody \<Rightarrow> error + StudentInput" where
  "StudentInput_validate b =
     build_StudentInput
       (float_ge0_le10 ''University_GPA'' (body_University_GPA b))
       (str_min_length1 ''Field_of_Study'' (body_Field_of_Study b))
       (str_min_length1 ''Gender'' (body_Gender b))
       (int_ge0 ''Internships_Completed'' (body_Internships_Completed b))
       (float_ge0_le10 ''Soft_Skills_Score'' (body_Soft_Skills_Score b))
       (float_ge0_le10 ''Networking_Score'' (body_Networking_Score b))"

subsection \<open>The preprocessing steps of \<open>create_ml_pipeline\<close>\<close>

text \<open>
  \<open>create_ml_pipeline\<close> only names scikit-learn estimators with their arguments; what a
  fitted estimator computes is the library's documented behaviour, written out here for
  one column and one value at a time.

  \<open>SimpleImputer\<close>: a missing value (\<open>None\<close>) is replaced by the statistic frozen at
  training time (the mean of a numerical column, the most frequent value of a categorical
  one); a present value passes unchanged.
\<close>

definition SimpleImputer_transform :: "'a \<Rightarrow> 'a option \<Rightarrow> 'a" where
  "SimpleImputer_transform statistic v = (case v of None \<Rightarrow> statistic | Some x \<Rightarrow> x)"

text \<open>
  \<open>StandardScaler()\<close> with its default arguments: the attribute \<open>mean_\<close> (here
  \<open>fitted_mean\<close>) is the mean of the training column, \<open>scale_\<close> (here \<open>fitted_scale\<close>)
  the square root of its population variance, except that a scale of zero is replaced by
  one (scikit-learn's \<open>_handle_zeros_in_scale\<close>); \<open>transform\<close> subtracts the mean and
  divides by the scale.  Fitting on an empty column raises.
\<close>

record StandardScaler =
  fitted_mean :: real
  fitted_scale :: real

definition np_mean :: "real list \<Rightarrow> real" where
  "np_mean xs = sum_list xs / real (length xs)"

definition np_var :: "real list \<Rightarrow> real" where
  "np_var xs = sum_list (map (\<lambda>x. (x - np_mean xs)\<^sup>2) xs) / real (length xs)"

definition np_std :: "real list \<Rightarrow> real" where
  "np_std xs = sqrt (np_var xs)"

definition handle_zeros_in_scale :: "real \<Rightarrow> real" where
  "handle_zeros_in_scale scale = (if scale = 0 then 1 else scale)"

definition StandardScaler_fit :: "real list \<Rightarrow> error + StandardScaler" where
  "StandardScaler_fit xs =
     (if xs = [] then Inl ValueError
      else Inr \<lparr>fitted_mean = np_mean xs, fitted_scale = handle_zeros_in_scale (np_std xs)\<rparr>)"

definition StandardScaler_transform :: "StandardScaler \<Rightarrow> real \<Rightarrow> real" where
  "StandardScaler_transform sc x = (x - fitted_mean sc) / fitted_scale sc"

text \<open>The fitted \<open>numerical_pipeline\<close>: imputer, then scaler.\<close>

record numerical_pipeline =
  imputer_mean :: real
  scaler :: StandardScaler

definition numerical_pipeline_transform :: "numerical_pipeline \<Rightarrow> real option \<Rightarrow> real" where
  "numerical_pipeline_transform np v =
     StandardScaler_transform (scaler np) (SimpleImputer_transform (imputer_mean np) v)"

text \<open>
  \<open>OneHotEncoder\<close>: one indicator per category of the fitted vocabulary (the attribute
  \<open>categories_\<close>, here \<open>fitted_categories\<close>).
  A value outside the vocabulary raises under \<open>handle_unknown='error'\<close> and is encoded
  like any other value under \<open>handle_unknown='ignore'\<close>.
\<close>

datatype handle_unknown = Unknown_error | Unknown_ignore

definition OneHotEncoder_transform ::
  "handle_unknown \<Rightarrow> string list \<Rightarrow> string \<Rightarrow> error + real list" where
  "OneHotEncoder_transform hu categories v =
     (if v \<notin> set categories \<and> hu = Unknown_error then Inl ValueError
      else Inr (map (\<lambda>c. if c = v then 1 else 0) categories))"

text \<open>
  The fitted \<open>categorical_pipeline\<close>: imputer with the most frequent value, then the
  encoder, created with \<open>handle_unknown='ignore'\<close>.
\<close>

record categorical_pipeline =
  imputer_most_frequent :: string
  fitted_categories :: "string list"

definition categorical_pipeline_transform ::
  "categorical_pipeline \<Rightarrow> string option \<Rightarrow> error + real list" where
  "categorical_pipeline_transform cp v =
     OneHotEncoder_transform Unknown_ignore (fitted_categories cp)
       (SimpleImputer_transform (imputer_most_frequent cp) v)"

text \<open>
  The fitted \<open>ColumnTransformer\<close>: the numerical columns in the order of
  \<open>numerical_features\<close>, then the indicator blocks in the order of
  \<open>categorical_features\<close>.
\<close>

record ColumnTransformer =
  num_University_GPA :: numerical_pipeline
  num_Soft_Skills_Score :: numerical_pipeline
  num_Networking_Score :: numerical_pipeline
  num_Internships_Completed :: numerical_pipeline
  cat_Field_of_Study :: categorical_pipeline
  cat_Gender :: categorical_pipeline

definition numerical_block :: "ColumnTransformer \<Rightarrow> StudentInput \<Rightarrow> real list" where
  "numerical_block ct r =
     [numerical_pipeline_transform (num_University_GPA ct) (Some (University_GPA r)),
      numerical_pipeline_transform (num_Soft_Skills_Score ct) (Some (Soft_Skills_Score r)),
      numerical_pipeline_transform (num_Networking_Score ct) (Some (Networking_Score r)),
      numerical_pipeline_transform (num_Internships_Completed ct)
        (Some (real_of_int (Internships_Completed r)))]"

definition ColumnTransformer_transform ::
  "ColumnTransformer \<Rightarrow> StudentInput \<Rightarrow> error + real list" where
  "ColumnTransformer_transform ct r =
     (case categorical_pipeline_transform (cat_Field_of_Study ct) (Some (Field_of_Study r)) of
        Inl e \<Rightarrow> Inl e
      | Inr field_block \<Rightarrow>
          (case categorical_pipeline_transform (cat_Gender ct) (Some (Gender r)) of
             Inl e \<Rightarrow> Inl e
           | Inr gender_block \<Rightarrow> Inr (numerical_block ct r @ field_block @ gender_block)))"

subsection \<open>The classifier and the fitted pipeline\<close>

text \<open>
  The fitted random forest is opaque: \<open>forest_proba\<close> is the class-probability row its
  trees give an encoded record, one entry per class of the attribute \<open>classes_\<close> (here
  \<open>fitted_classes\<close>).  The library's
  \<open>predict\<close> returns the class at the first maximum of that row (\<open>numpy.argmax\<close>).
\<close>

record RandomForestClassifier =
  fitted_classes :: "int list"
  forest_proba :: "real list \<Rightarrow> real list"

fun argmax_from :: "nat \<Rightarrow> real \<Rightarrow> nat \<Rightarrow> real list \<Rightarrow> nat" where
  "argmax_from best best_value i [] = best"
| "argmax_from best best_value i (x # xs) =
     (if best_value < x then argmax_from i x (Suc i) xs
      else argmax_from best best_value (Suc i) xs)"

definition argmax :: "real list \<Rightarrow> error + nat" where
  "argmax xs = (case xs of [] \<Rightarrow> Inl ValueError | x # rest \<Rightarrow> Inr (argmax_from 0 x 1 rest))"

definition RandomForestClassifier_predict ::
  "RandomForestClassifier \<Rightarrow> real list \<Rightarrow> error + int" where
  "RandomForestClassifier_predict clf features =
     (case argmax (forest_proba clf features) of
        Inl e \<Rightarrow> Inl e
      | Inr k \<Rightarrow> getitem (fitted_classes clf) k)"

record Pipeline =
  preprocessor :: ColumnTransformer
  classifier :: RandomForestClassifier

text \<open>A data frame is the list of its rows.\<close>

definition Pipeline_predict :: "Pipeline \<Rightarrow> StudentInput list \<Rightarrow> error + int list" where
  "Pipeline_predict p df =
     map_rows (\<lambda>row.
       case ColumnTransformer_transform (preprocessor p) row of
         Inl e \<Rightarrow> Inl e
       | Inr features \<Rightarrow> RandomForestClassifier_predict (classifier p) features) df"

definition Pipeline_predict_proba ::
  "Pipeline \<Rightarrow> StudentInput list \<Rightarrow> error + real list list" where
  "Pipeline_predict_proba p df =
     map_rows (\<lambda>row.
       case ColumnTransformer_transform (preprocessor p) row of
         Inl e \<Rightarrow> Inl e
       | Inr features \<Rightarrow> Inr (forest_proba (classifier p) features)) df"

subsection \<open>The machine-learning service\<close>

record Prediction =
  input_data :: StudentInput
  predicted_label :: int
  probability :: real

text \<open>
  The process state: the module global \<open>_cached_pipeline\<close>, and the tables
  \<open>trained_pipeline\<close> (the stored pipeline, if a training run has written one) and
  \<open>predictions\<close>.
\<close>

record state =
  cached_pipeline :: "Pipeline option"
  trained_pipeline :: "Pipeline option"
  predictions :: "Prediction list"

text \<open>
  Modelled from the spec: \<open>DatabaseService.get_trained_pipeline\<close>, whose body is not part
  of the sources.  It returns the stored pipeline and fails with \<open>ModelNotTrainedError\<close>
  when the store holds none.
\<close>

definition get_trained_pipeline :: "state \<Rightarrow> error + Pipeline" where
  "get_trained_pipeline s =
     (case trained_pipeline s of None \<Rightarrow> Inl ModelNotTrainedError | Some p \<Rightarrow> Inr p)"

definition load_pipeline :: "state \<Rightarrow> (error + Pipeline) \<times> state" where
  "load_pipeline s =
     (case cached_pipeline s of
        Some p \<Rightarrow> (Inr p, s)
      | None \<Rightarrow>
          (case get_trained_pipeline s of
             Inl e \<Rightarrow> (Inl e, s)
           | Inr p \<Rightarrow> (Inr p, s\<lparr>cached_pipeline := Some p\<rparr>)))"

text \<open>
  Modelled from the spec: \<open>preprocess_input\<close>, whose body is not part of the sources.  It
  turns the input into a data frame of one row.
\<close>

definition preprocess_input :: "StudentInput \<Rightarrow> StudentInput list" where
  "preprocess_input input = [input]"

definition predict :: "state \<Rightarrow> StudentInput \<Rightarrow> (error + int \<times> real) \<times> state" where
  "predict s input =
     (case load_pipeline s of
        (Inl e, s') \<Rightarrow> (Inl e, s')
      | (Inr pipeline, s') \<Rightarrow>
          (let df = preprocess_input input in
           case Pipeline_predict pipeline df of
             Inl e \<Rightarrow> (Inl e, s')
           | Inr labels \<Rightarrow>
               (case getitem labels 0 of
                  Inl e \<Rightarrow> (Inl e, s')
                | Inr label \<Rightarrow>
                    (case Pipeline_predict_proba pipeline df of
                       Inl e \<Rightarrow> (Inl e, s')
                     | Inr rows \<Rightarrow>
                         (case getitem rows 0 of
                            Inl e \<Rightarrow> (Inl e, s')
                          | Inr row \<Rightarrow>
                              (case getitem row 1 of
                                 Inl e \<Rightarrow> (Inl e, s')
                               | Inr p \<Rightarrow> (Inr (label, p), s')))))))"

definition calculate_confidence :: "real \<Rightarrow> real" where
  "calculate_confidence p = \<bar>p - 0.5\<bar> * 2"

record PredictionResponse =
  predicted_label :: int
  probability :: real
  confidence :: real

text \<open>
  Modelled from the spec: \<open>MLService.make_prediction\<close>, whose body is not part of the
  sources.  As the inference steps of the specification and the prediction logic of the
  project description give it, and as the route reads its result: the label and the
  probability of \<open>predict\<close>, and the confidence computed from that probability.
\<close>

definition make_prediction ::
  "state \<Rightarrow> StudentInput \<Rightarrow> (error + PredictionResponse) \<times> state" where
  "make_prediction s input =
     (case predict s input of
        (Inl e, s') \<Rightarrow> (Inl e, s')
      | (Inr (label, p), s') \<Rightarrow>
          (Inr \<lparr>predicted_label = label, probability = p,
                confidence = calculate_confidence p\<rparr>, s'))"

definition save_prediction :: "state \<Rightarrow> StudentInput \<Rightarrow> int \<Rightarrow> real \<Rightarrow> state" where
  "save_prediction s input label p =
     s\<lparr>predictions :=
         predictions s @
           [\<lparr>input_data = input, Prediction.predicted_label = label,
             Prediction.probability = p\<rparr>]\<rparr>"

text \<open>
  The route \<open>POST /predict\<close>: the framework validates the body against \<open>StudentInput\<close>
  before the handler runs; the handler predicts, saves the prediction and answers.
\<close>

definition predict_career_success ::
  "state \<Rightarrow> RequestBody \<Rightarrow> (error + PredictionResponse) \<times> state" where
  "predict_career_success s body =
     (case StudentInput_validate body of
        Inl e \<Rightarrow> (Inl e, s)
      | Inr student \<Rightarrow>
          (case make_prediction s student of
             (Inl e, s') \<Rightarrow> (Inl e, s')
           | (Inr result, s') \<Rightarrow>
               (Inr result,
                save_prediction s' student (predicted_label result)
                  (probability result))))"

subsection \<open>JavaScript numbers\<close>

datatype number = Finite real | NaN | PosInfinity | NegInfinity

text \<open>\<open>x < c\<close> and \<open>x > c\<close> for a finite constant \<open>c\<close>: every comparison with NaN is false.\<close>

fun less_than :: "number \<Rightarrow> real \<Rightarrow> bool" where
  "less_than (Finite x) c = (x < c)"
| "less_than NaN c = False"
| "less_than PosInfinity c = False"
| "less_than NegInfinity c = True"

fun greater_than :: "number \<Rightarrow> real \<Rightarrow> bool" where
  "greater_than (Finite x) c = (c < x)"
| "greater_than NaN c = False"
| "greater_than PosInfinity c = True"
| "greater_than NegInfinity c = False"

text \<open>A number is falsy when it is zero or NaN.\<close>

fun truthy :: "number \<Rightarrow> bool" where
  "truthy (Finite x) = (x \<noteq> 0)"
| "truthy NaN = False"
| "truthy PosInfinity = True"
| "truthy NegInfinity = True"

text \<open>The expression \<open>x || 0\<close>.\<close>

definition or_zero :: "number \<Rightarrow> number" where
  "or_zero x = (if truthy x then x else Finite 0)"

subsection \<open>The prediction form\<close>

record FormData =
  form_University_GPA :: number
  form_Field_of_Study :: string
  form_Gender :: string
  form_Internships_Completed :: number
  form_Soft_Skills_Score :: number
  form_Networking_Score :: number

text \<open>
  The component state that matters here: the form data, the validation errors (the keys of
  \<open>FormErrors\<close> that hold a message), and the bodies sent to \<open>POST /predict\<close> so far.
\<close>

record form_state =
  formData :: FormData
  errors :: "(string \<times> string) list"
  posted :: "FormData list"

definition initial_form_state :: form_state where
  "initial_form_state =
     \<lparr>formData =
        \<lparr>form_University_GPA = Finite 0, form_Field_of_Study = [], form_Gender = [],
         form_Internships_Completed = Finite 0, form_Soft_Skills_Score = Finite 0,
         form_Networking_Score = Finite 0\<rparr>,
      errors = [], posted = []\<rparr>"

text \<open>
  \<open>{...prev, [name]: v}\<close> on the form data.  The inputs of the form carry the six names
  below; a key of any other name would be an extra property that nothing reads.
\<close>

definition set_string_field :: "string \<Rightarrow> string \<Rightarrow> FormData \<Rightarrow> FormData" where
  "set_string_field name v prev =
     (if name = ''Field_of_Study'' then prev\<lparr>form_Field_of_Study := v\<rparr>
      else if name = ''Gender'' then prev\<lparr>form_Gender := v\<rparr>
      else prev)"

definition set_number_field :: "string \<Rightarrow> number \<Rightarrow> FormData \<Rightarrow> FormData" where
  "set_number_field name v prev =
     (if name = ''University_GPA'' then prev\<lparr>form_University_GPA := v\<rparr>
      else if name = ''Internships_Completed'' then prev\<lparr>form_Internships_Completed := v\<rparr>
      else if name = ''Soft_Skills_Score'' then prev\<lparr>form_Soft_Skills_Score := v\<rparr>
      else if name = ''Networking_Score'' then prev\<lparr>form_Networking_Score := v\<rparr>
      else prev)"

text \<open>
  \<open>handleChange\<close>, with JavaScript's \<open>parseFloat\<close> as a parameter: the field named by the
  event is overwritten, and its error is cleared.
\<close>

definition handleChange ::
  "(string \<Rightarrow> number) \<Rightarrow> string \<Rightarrow> string \<Rightarrow> form_state \<Rightarrow> form_state" where
  "handleChange parseFloat name value st =
     st\<lparr>formData :=
          (if name = ''Field_of_Study'' \<or> name = ''Gender''
           then set_string_field name value (formData st)
           else set_number_field name (or_zero (parseFloat value)) (formData st)),
        errors := filter (\<lambda>(key, message). key \<noteq> name) (errors st)\<rparr>"

definition newErrors :: "FormData \<Rightarrow> (string \<times> string) list" where
  "newErrors fd =
     (if less_than (form_University_GPA fd) 0 \<or> greater_than (form_University_GPA fd) 10
      then [(''University_GPA'', ''GPA must be between 0 and 10'')] else []) @
     (if form_Field_of_Study fd = []
      then [(''Field_of_Study'', ''Please select a field of study'')] else []) @
     (if form_Gender fd = []
      then [(''Gender'', ''Please select a gender'')] else []) @
     (if less_than (form_Internships_Completed fd) 0
      then [(''Internships_Completed'', ''Internships must be non-negative'')] else []) @
     (if less_than (form_Soft_Skills_Score fd) 0 \<or> greater_than (form_Soft_Skills_Score fd) 10
      then [(''Soft_Skills_Score'', ''Score must be between 0 and 10'')] else []) @
     (if less_than (form_Networking_Score fd) 0 \<or> greater_than (form_Networking_Score fd) 10
      then [(''Networking_Score'', ''Score must be between 0 and 10'')] else [])"

definition validateForm :: "form_state \<Rightarrow> bool \<times> form_state" where
  "validateForm st =
     (let new = newErrors (formData st) in (new = [], st\<lparr>errors := new\<rparr>))"

text \<open>\<open>handleSubmit\<close>: nothing is sent unless \<open>validateForm\<close> accepts the form data.\<close>

definition handleSubmit :: "form_state \<Rightarrow> form_state" where
  "handleSubmit st =
     (case validateForm st of
        (False, st') \<Rightarrow> st'
      | (True, st') \<Rightarrow> st'\<lparr>posted := posted st' @ [formData st']\<rparr>)"

datatype event = Change string string | Submit

fun handle :: "(string \<Rightarrow> number) \<Rightarrow> form_state \<Rightarrow> event \<Rightarrow> form_state" where
  "handle parseFloat st (Change name value) = handleChange parseFloat name value st"
| "handle parseFloat st Submit = handleSubmit st"

definition run_form :: "(string \<Rightarrow> number) \<Rightarrow> event list \<Rightarrow> form_state" where
  "run_form parseFloat events = foldl (handle parseFloat) initial_form_state events"

subsection \<open>The life of the serving process\<close>

text \<open>
  The process starts with \<open>_cached_pipeline = None\<close> over whatever the store holds, and
  then serves requests one after the other.
\<close>

definition process_start :: "Pipeline option \<Rightarrow> state" where
  "process_start stored =
     \<lparr>cached_pipeline = None, trained_pipeline = stored, predictions = []\<rparr>"

definition serve :: "state \<Rightarrow> RequestBody list \<Rightarrow> state" where
  "serve s bodies = foldl (\<lambda>s body. snd (predict_career_success s body)) s bodies"

subsection \<open>Example data\<close>

text \<open>
  A fitted pipeline whose forest answers every record with the probabilities of the
  documented example response, the example request of the project description, and a
  pipeline whose forest is evenly split.
\<close>

definition example_pipeline :: Pipeline where
  "example_pipeline =
     \<lparr>preprocessor =
        \<lparr>num_University_GPA =
           \<lparr>imputer_mean = 7, scaler = \<lparr>fitted_mean = 7, fitted_scale = 2\<rparr>\<rparr>,
         num_Soft_Skills_Score =
           \<lparr>imputer_mean = 6, scaler = \<lparr>fitted_mean = 6, fitted_scale = 2\<rparr>\<rparr>,
         num_Networking_Score =
           \<lparr>imputer_mean = 5, scaler = \<lparr>fitted_mean = 5, fitted_scale = 2\<rparr>\<rparr>,
         num_Internships_Completed =
           \<lparr>imputer_mean = 2, scaler = \<lparr>fitted_mean = 2, fitted_scale = 1\<rparr>\<rparr>,
         cat_Field_of_Study =
           \<lparr>imputer_most_frequent = ''Computer Science'',
            fitted_categories = [''Computer Science'', ''Mathematics'']\<rparr>,
         cat_Gender =
           \<lparr>imputer_most_frequent = ''Male'', fitted_categories = [''Female'', ''Male'']\<rparr>\<rparr>,
      classifier =
        \<lparr>fitted_classes = [0, 1], forest_proba = (\<lambda>features. [1 / 20, 19 / 20])\<rparr>\<rparr>"

definition tie_pipeline :: Pipeline where
  "tie_pipeline =
     example_pipeline
       \<lparr>classifier :=
          \<lparr>fitted_classes = [0, 1], forest_proba = (\<lambda>features. [1 / 2, 1 / 2])\<rparr>\<rparr>"

definition example_body :: RequestBody where
  "example_body =
     \<lparr>body_University_GPA = Some 8.5, body_Field_of_Study = Some ''Computer Science'',
      body_Gender = Some ''Male'', body_Internships_Completed = Some 3,
      body_Soft_Skills_Score = Some 8, body_Networking_Score = Some 7.5\<rparr>"

definition example_student :: StudentInput where
  "example_student =
     \<lparr>University_GPA = 8.5, Field_of_Study = ''Computer Science'', Gender = ''Male'',
      Internships_Completed = 3, Soft_Skills_Score = 8, Networking_Score = 7.5\<rparr>"

definition unknown_field_student :: StudentInput where
  "unknown_field_student = example_student\<lparr>Field_of_Study := ''Astrology''\<rparr>"

definition unknown_gender_student :: StudentInput where
  "unknown_gender_student = example_student\<lparr>Gender := ''Other''\<rparr>"

definition gpa_11_body :: RequestBody where
  "gpa_11_body = example_body\<lparr>body_University_GPA := Some 11\<rparr>"

definition gpa_11_form :: form_state where
  "gpa_11_form =
     \<lparr>formData =
        \<lparr>form_University_GPA = Finite 11, form_Field_of_Study = ''Physics'',
         form_Gender = ''Male'', form_Internships_Completed = Finite 3,
         form_Soft_Skills_Score = Finite 8, form_Networking_Score = Finite 7.5\<rparr>,
      errors = [], posted = []\<rparr>"

text \<open>
  A stand-in for \<open>parseFloat\<close> on the three strings the example session types, and that
  session: a GPA, an internship count that is not a number, the two selections, submit.
\<close>

definition example_parseFloat :: "string \<Rightarrow> number" where
  "example_parseFloat text =
     (if text = ''8.5'' then Finite 8.5 else if text = ''3'' then Finite 3 else NaN)"

definition example_events :: "event list" where
  "example_events =
     [Change ''University_GPA'' ''8.5'', Change ''Internships_Completed'' ''abc'',
      Change ''Field_of_Study'' ''Physics'', Change ''Gender'' ''Male'', Submit]"

subsection \<open>Notions used to state the properties\<close>

text \<open>
  The documented domains, in the words of the specification, for a request body: the
  named numeric field is outside its domain (0 to 10 for the grade and the two scores, at
  least 0 for the internship count), or the named required field is absent.
\<close>

definition spec_offending :: "RequestBody \<Rightarrow> string \<Rightarrow> bool" where
  "spec_offending b name =
     (name = ''University_GPA'' \<and>
        (case body_University_GPA b of None \<Rightarrow> True | Some x \<Rightarrow> x < 0 \<or> 10 < x) \<or>
      name = ''Soft_Skills_Score'' \<and>
        (case body_Soft_Skills_Score b of None \<Rightarrow> True | Some x \<Rightarrow> x < 0 \<or> 10 < x) \<or>
      name = ''Networking_Score'' \<and>
        (case body_Networking_Score b of None \<Rightarrow> True | Some x \<Rightarrow> x < 0 \<or> 10 < x) \<or>
      name = ''Internships_Completed'' \<and>
        (case body_Internships_Completed b of None \<Rightarrow> True | Some x \<Rightarrow> x < 0) \<or>
      name = ''Field_of_Study'' \<and> body_Field_of_Study b = None \<or>
      name = ''Gender'' \<and> body_Gender b = None)"

text \<open>
  The same for the data of the form, where a selection that was never made is the empty
  string.
\<close>

definition spec_offending_form :: "FormData \<Rightarrow> string \<Rightarrow> bool" where
  "spec_offending_form fd name =
     (name = ''University_GPA'' \<and>
        (less_than (form_University_GPA fd) 0 \<or> greater_than (form_University_GPA fd) 10) \<or>
      name = ''Soft_Skills_Score'' \<and>
        (less_than (form_Soft_Skills_Score fd) 0 \<or>
         greater_than (form_Soft_Skills_Score fd) 10) \<or>
      name = ''Networking_Score'' \<and>
        (less_than (form_Networking_Score fd) 0 \<or>
         greater_than (form_Networking_Score fd) 10) \<or>
      name = ''Internships_Completed'' \<and> less_than (form_Internships_Completed fd) 0 \<or>
      name = ''Field_of_Study'' \<and> form_Field_of_Study fd = [] \<or>
      name = ''Gender'' \<and> form_Gender fd = [])"

text \<open>The numeric fields of the form data, and the read \<open>formData[name]\<close> of one of them.\<close>

definition numeric_fields :: "FormData \<Rightarrow> number list" where
  "numeric_fields fd =
     [form_University_GPA fd, form_Internships_Completed fd, form_Soft_Skills_Score fd,
      form_Networking_Score fd]"

definition get_number_field :: "string \<Rightarrow> FormData \<Rightarrow> number option" where
  "get_number_field name fd =
     (if name = ''University_GPA'' then Some (form_University_GPA fd)
      else if name = ''Internships_Completed'' then Some (form_Internships_Completed fd)
      else if name = ''Soft_Skills_Score'' then Some (form_Soft_Skills_Score fd)
      else if name = ''Networking_Score'' then Some (form_Networking_Score fd)
      else None)"

text \<open>No numeric field is NaN, in the form data and in every body sent so far.\<close>

definition no_NaN :: "form_state \<Rightarrow> bool" where
  "no_NaN st \<longleftrightarrow>
     NaN \<notin> set (numeric_fields (formData st)) \<and>
     (\<forall>payload\<in>set (posted st). NaN \<notin> set (numeric_fields payload))"

section \<open>Properties\<close>

subsection \<open>Evaluating the examples\<close>

lemmas encoder_defs =
  ColumnTransformer_transform_def categorical_pipeline_transform_def
  OneHotEncoder_transform_def SimpleImputer_transform_def

lemmas predict_defs =
  predict_def load_pipeline_def get_trained_pipeline_def preprocess_input_def
  Pipeline_predict_def Pipeline_predict_proba_def RandomForestClassifier_predict_def
  argmax_def getitem_def

lemma validate_example_body: "StudentInput_validate example_body = Inr example_student"
  by (simp add: StudentInput_validate_def example_body_def example_student_def
      float_ge0_le10_def str_min_length1_def int_ge0_def)

lemma predict_example:
  "predict (process_start (Some example_pipeline)) example_student =
     (Inr (1, 19 / 20),
      \<lparr>cached_pipeline = Some example_pipeline, trained_pipeline = Some example_pipeline,
       predictions = []\<rparr>)"
  by (simp add: predict_defs encoder_defs process_start_def example_pipeline_def
      example_student_def)

subsection \<open>The pipeline cache\<close>

lemma load_pipeline_cached: "cached_pipeline s = Some p \<Longrightarrow> load_pipeline s = (Inr p, s)"
  by (simp add: load_pipeline_def)

lemma load_pipeline_first:
  "cached_pipeline s = None \<Longrightarrow> trained_pipeline s = Some p \<Longrightarrow>
     load_pipeline s = (Inr p, s\<lparr>cached_pipeline := Some p\<rparr>)"
  by (simp add: load_pipeline_def get_trained_pipeline_def)

lemma load_pipeline_empty:
  "cached_pipeline s = None \<Longrightarrow> trained_pipeline s = None \<Longrightarrow>
     load_pipeline s = (Inl ModelNotTrainedError, s)"
  by (simp add: load_pipeline_def get_trained_pipeline_def)

lemma load_pipeline_twice:
  "load_pipeline (snd (load_pipeline s)) = (fst (load_pipeline s), snd (load_pipeline s))"
  by (cases "cached_pipeline s"; cases "trained_pipeline s")
     (simp_all add: load_pipeline_def get_trained_pipeline_def)

lemma load_pipeline_tables:
  "load_pipeline s = (r, s') \<Longrightarrow>
     predictions s' = predictions s \<and> trained_pipeline s' = trained_pipeline s"
  by (auto simp: load_pipeline_def split: option.splits sum.splits)

lemma predict_state: "predict s x = (r, s') \<Longrightarrow> s' = snd (load_pipeline s)"
  by (auto simp: predict_def Let_def split: prod.splits sum.splits)

lemma make_prediction_state: "make_prediction s x = (r, s') \<Longrightarrow> s' = snd (load_pipeline s)"
  by (auto simp: make_prediction_def split: prod.splits sum.splits dest: predict_state)

text \<open>
  C7.  Once the store holds a pipeline, the first \<open>load_pipeline\<close> of a process reads it
  and keeps it in the cache; a second call returns the same pipeline from the cache and
  leaves the state as it is, whatever the store holds by then.  In any state, calling
  twice gives what calling once gives.
\<close>

theorem load_pipeline_idempotent:
  assumes "cached_pipeline s = None" and "trained_pipeline s = Some p"
  shows "load_pipeline s = (Inr p, s\<lparr>cached_pipeline := Some p\<rparr>) \<and>
         load_pipeline (s\<lparr>cached_pipeline := Some p\<rparr>) =
           (Inr p, s\<lparr>cached_pipeline := Some p\<rparr>) \<and>
         load_pipeline (s\<lparr>cached_pipeline := Some p, trained_pipeline := stored\<rparr>) =
           (Inr p, s\<lparr>cached_pipeline := Some p, trained_pipeline := stored\<rparr>) \<and>
         load_pipeline (snd (load_pipeline t)) = (fst (load_pipeline t), snd (load_pipeline t))"
  using assms by (simp add: load_pipeline_first load_pipeline_cached load_pipeline_twice)

theorem load_pipeline_idempotent_witness:
  "cached_pipeline (process_start (Some example_pipeline)) = None \<and>
   trained_pipeline (process_start (Some example_pipeline)) = Some example_pipeline \<and>
   load_pipeline (process_start (Some example_pipeline)) =
     (Inr example_pipeline,
      \<lparr>cached_pipeline = Some example_pipeline, trained_pipeline = Some example_pipeline,
       predictions = []\<rparr>) \<and>
   load_pipeline
     \<lparr>cached_pipeline = Some example_pipeline, trained_pipeline = Some example_pipeline,
      predictions = []\<rparr> =
     (Inr example_pipeline,
      \<lparr>cached_pipeline = Some example_pipeline, trained_pipeline = Some example_pipeline,
       predictions = []\<rparr>) \<and>
   load_pipeline
     \<lparr>cached_pipeline = Some example_pipeline, trained_pipeline = None, predictions = []\<rparr> =
     (Inr example_pipeline,
      \<lparr>cached_pipeline = Some example_pipeline, trained_pipeline = None, predictions = []\<rparr>)"
proof -
  have cache: "cached_pipeline (process_start (Some example_pipeline)) = None"
    by (simp add: process_start_def)
  have store: "trained_pipeline (process_start (Some example_pipeline)) = Some example_pipeline"
    by (simp add: process_start_def)
  show ?thesis
    using load_pipeline_idempotent [OF cache store, of None] cache store
    by (simp add: process_start_def)
qed

subsection \<open>Confidence\<close>

lemma make_prediction_confidence:
  "make_prediction s x = (Inr r, s') \<Longrightarrow>
     confidence r = calculate_confidence (probability r)"
  by (auto simp: make_prediction_def split: prod.splits sum.splits)

lemma route_example:
  "predict_career_success (process_start (Some example_pipeline)) example_body =
     (Inr \<lparr>predicted_label = 1, probability = 19 / 20, confidence = 9 / 10\<rparr>,
      \<lparr>cached_pipeline = Some example_pipeline, trained_pipeline = Some example_pipeline,
       predictions =
         [\<lparr>input_data = example_student, Prediction.predicted_label = 1,
           Prediction.probability = 19 / 20\<rparr>]\<rparr>)"
  by (simp add: predict_career_success_def validate_example_body make_prediction_def
      predict_example calculate_confidence_def save_prediction_def)

text \<open>
  C1.  For a probability \<open>p\<close> between 0 and 1, \<open>calculate_confidence p\<close> is
  \<open>|p - 0.5| * 2\<close> and lies between 0 and 1; it is 0 at 0.5 and 1 at 0 and at 1.  The
  confidence of every answer of the prediction route is that function of the answer's own
  probability, and the row the route saves holds the label and the probability only.
\<close>

theorem confidence_from_probability:
  "(\<forall>p. 0 \<le> p \<and> p \<le> 1 \<longrightarrow>
      calculate_confidence p = \<bar>p - 1 / 2\<bar> * 2 \<and>
      0 \<le> calculate_confidence p \<and> calculate_confidence p \<le> 1) \<and>
   calculate_confidence (1 / 2) = 0 \<and>
   calculate_confidence 0 = 1 \<and>
   calculate_confidence 1 = 1 \<and>
   (predict_career_success s body = (Inr r, s') \<longrightarrow>
      confidence r = \<bar>probability r - 1 / 2\<bar> * 2 \<and>
      (\<exists>student. predictions s' = predictions s @
         [\<lparr>input_data = student, Prediction.predicted_label = predicted_label r,
           Prediction.probability = probability r\<rparr>]))"
proof -
  have formula: "calculate_confidence p = \<bar>p - 1 / 2\<bar> * 2" for p
    by (simp add: calculate_confidence_def)
  have bounds: "0 \<le> p \<and> p \<le> 1 \<longrightarrow> 0 \<le> calculate_confidence p \<and> calculate_confidence p \<le> 1"
    for p
    unfolding formula by (auto simp: abs_if)
  have route:
    "confidence r = \<bar>probability r - 1 / 2\<bar> * 2 \<and>
     (\<exists>student. predictions s' = predictions s @
        [\<lparr>input_data = student, Prediction.predicted_label = predicted_label r,
          Prediction.probability = probability r\<rparr>])"
    if run: "predict_career_success s body = (Inr r, s')"
  proof -
    from run obtain student s1 where
      made: "make_prediction s student = (Inr r, s1)" and
      saved: "s' = save_prediction s1 student (predicted_label r) (probability r)"
      by (auto simp: predict_career_success_def split: sum.splits prod.splits)
    from made have "s1 = snd (load_pipeline s)"
      by (rule make_prediction_state)
    then have "predictions s1 = predictions s"
      using load_pipeline_tables [of s "fst (load_pipeline s)" s1] by simp
    with saved have
      "predictions s' = predictions s @
         [\<lparr>input_data = student, Prediction.predicted_label = predicted_label r,
           Prediction.probability = probability r\<rparr>]"
      by (simp add: save_prediction_def)
    moreover from made have "confidence r = \<bar>probability r - 1 / 2\<bar> * 2"
      using make_prediction_confidence formula by simp
    ultimately show ?thesis by blast
  qed
  show ?thesis using bounds route by (simp add: formula)
qed

theorem confidence_from_probability_witness:
  "predict_career_success (process_start (Some example_pipeline)) example_body =
     (Inr \<lparr>predicted_label = 1, probability = 19 / 20, confidence = 9 / 10\<rparr>,
      \<lparr>cached_pipeline = Some example_pipeline, trained_pipeline = Some example_pipeline,
       predictions =
         [\<lparr>input_data = example_student, Prediction.predicted_label = 1,
           Prediction.probability = 19 / 20\<rparr>]\<rparr>) \<and>
   (9 / 10 :: real) = \<bar>19 / 20 - 1 / 2\<bar> * 2 \<and>
   (0::real) \<le> 19 / 20 \<and> (19 / 20 :: real) \<le> 1 \<and>
   calculate_confidence (19 / 20) = \<bar>19 / 20 - 1 / 2\<bar> * 2 \<and>
   0 \<le> calculate_confidence (19 / 20) \<and> calculate_confidence (19 / 20) \<le> 1"
  using confidence_from_probability
    [of "process_start (Some example_pipeline)" example_body
        "\<lparr>predicted_label = 1, probability = 19 / 20, confidence = 9 / 10\<rparr>"
        "\<lparr>cached_pipeline = Some example_pipeline, trained_pipeline = Some example_pipeline,
          predictions =
            [\<lparr>input_data = example_student, Prediction.predicted_label = 1,
           Prediction.probability = 19 / 20\<rparr>]\<rparr>"]
    route_example
  by simp

subsection \<open>Predicting without a trained pipeline\<close>

lemma predict_empty:
  "cached_pipeline s = None \<Longrightarrow> trained_pipeline s = None \<Longrightarrow>
     predict s input = (Inl ModelNotTrainedError, s)"
  by (simp add: predict_def load_pipeline_empty)

lemma make_prediction_empty:
  "cached_pipeline s = None \<Longrightarrow> trained_pipeline s = None \<Longrightarrow>
     make_prediction s input = (Inl ModelNotTrainedError, s)"
  by (simp add: make_prediction_def predict_empty)

lemma route_empty:
  "cached_pipeline s = None \<Longrightarrow> trained_pipeline s = None \<Longrightarrow>
     snd (predict_career_success s body) = s"
  by (simp add: predict_career_success_def make_prediction_empty split: sum.splits)

lemma serve_empty:
  "cached_pipeline s = None \<Longrightarrow> trained_pipeline s = None \<Longrightarrow> serve s bodies = s"
  unfolding serve_def by (induction bodies arbitrary: s) (simp_all add: route_empty)

text \<open>
  C8.  While the store holds no pipeline and the cache is empty, \<open>predict\<close> fails with
  \<open>ModelNotTrainedError\<close> for every record and leaves the state as it is, and so do
  \<open>make_prediction\<close> and the route for a valid body.  A process started over an empty
  store stays in that state whatever requests it has served, so there \<open>predict\<close> fails
  with \<open>ModelNotTrainedError\<close> always.
\<close>

theorem predict_without_trained_pipeline:
  "(cached_pipeline s = None \<and> trained_pipeline s = None \<longrightarrow>
      predict s input = (Inl ModelNotTrainedError, s) \<and>
      make_prediction s input = (Inl ModelNotTrainedError, s) \<and>
      (StudentInput_validate body = Inr input \<longrightarrow>
         predict_career_success s body = (Inl ModelNotTrainedError, s))) \<and>
   predict (serve (process_start None) bodies) input =
     (Inl ModelNotTrainedError, serve (process_start None) bodies)"
proof -
  have "serve (process_start None) bodies = process_start None"
    by (rule serve_empty) (simp_all add: process_start_def)
  moreover have
    "predict (process_start None) input = (Inl ModelNotTrainedError, process_start None)"
    by (rule predict_empty) (simp_all add: process_start_def)
  ultimately show ?thesis
    by (simp add: predict_empty make_prediction_empty predict_career_success_def)
qed

theorem predict_without_trained_pipeline_witness:
  "cached_pipeline (process_start None) = None \<and>
   trained_pipeline (process_start None) = None \<and>
   StudentInput_validate example_body = Inr example_student \<and>
   predict (process_start None) example_student =
     (Inl ModelNotTrainedError, process_start None) \<and>
   predict_career_success (process_start None) example_body =
     (Inl ModelNotTrainedError, process_start None) \<and>
   predict (serve (process_start None) [example_body, example_body]) example_student =
     (Inl ModelNotTrainedError, serve (process_start None) [example_body, example_body])"
proof -
  have cache: "cached_pipeline (process_start None) = None"
    by (simp add: process_start_def)
  have store: "trained_pipeline (process_start None) = None"
    by (simp add: process_start_def)
  show ?thesis
    using predict_without_trained_pipeline
      [of "process_start None" example_student example_body "[example_body, example_body]"]
      cache store validate_example_body
    by simp
qed

subsection \<open>Label and probability\<close>

lemma encode_example:
  "ColumnTransformer_transform (preprocessor example_pipeline) example_student =
     Inr [3 / 4, 1, 5 / 4, 1, 1, 0, 0, 1]"
  by (simp add: encoder_defs numerical_block_def numerical_pipeline_transform_def
      StandardScaler_transform_def example_pipeline_def example_student_def)

lemma encode_example_tie:
  "ColumnTransformer_transform (preprocessor tie_pipeline) example_student =
     Inr [3 / 4, 1, 5 / 4, 1, 1, 0, 0, 1]"
  by (simp add: encoder_defs numerical_block_def numerical_pipeline_transform_def
      StandardScaler_transform_def tie_pipeline_def example_pipeline_def example_student_def)

lemma load_example:
  "load_pipeline (process_start (Some p)) =
     (Inr p, \<lparr>cached_pipeline = Some p, trained_pipeline = Some p, predictions = []\<rparr>)"
  by (simp add: load_pipeline_def get_trained_pipeline_def process_start_def)

text \<open>
  C2, as the claim states it, fails where the forest is evenly split: the probability
  returned is 0.5, which is at least 0.5, and the label returned is 0.
\<close>

theorem predict_label_threshold_counterexample:
  "fst (predict (process_start (Some tie_pipeline)) example_student) = Inr (0, 1 / 2) \<and>
   (0.5 :: real) \<le> 1 / 2"
  by (simp add: predict_defs encoder_defs process_start_def example_pipeline_def
      tie_pipeline_def example_student_def)

text \<open>
  C2, amended.  For a loaded pipeline with the classes 0 and 1 whose forest gives the
  encoded record the row \<open>[1 - q, q]\<close>, \<open>predict\<close> returns that probability \<open>q\<close>
  together with the class the pipeline's classifier predicts for the encoded record, and
  this label is 1 when \<open>q\<close> is greater than 0.5 and 0 when \<open>q\<close> is at most 0.5.
\<close>

theorem predict_label_threshold:
  assumes loaded: "load_pipeline s = (Inr p, s')"
    and classes: "fitted_classes (classifier p) = [0, 1]"
    and enc: "ColumnTransformer_transform (preprocessor p) input = Inr features"
    and row: "forest_proba (classifier p) features = [1 - q, q]"
  shows "predict s input = (Inr (if 1 / 2 < q then 1 else 0, q), s') \<and>
         RandomForestClassifier_predict (classifier p) features =
           Inr (if 1 / 2 < q then 1 else 0)"
proof -
  have label:
    "RandomForestClassifier_predict (classifier p) features = Inr (if 1 / 2 < q then 1 else 0)"
    using classes row by (simp add: RandomForestClassifier_predict_def argmax_def getitem_def)
  have labels:
    "Pipeline_predict p (preprocess_input input) = Inr [if 1 / 2 < q then 1 else 0]"
    using enc label by (simp add: Pipeline_predict_def preprocess_input_def)
  have rows: "Pipeline_predict_proba p (preprocess_input input) = Inr [[1 - q, q]]"
    using enc row by (simp add: Pipeline_predict_proba_def preprocess_input_def)
  have "predict s input = (Inr (if 1 / 2 < q then 1 else 0, q), s')"
    using loaded labels rows by (simp add: predict_def getitem_def)
  with label show ?thesis by simp
qed

theorem predict_label_threshold_witness:
  "load_pipeline (process_start (Some example_pipeline)) =
     (Inr example_pipeline,
      \<lparr>cached_pipeline = Some example_pipeline, trained_pipeline = Some example_pipeline,
       predictions = []\<rparr>) \<and>
   fitted_classes (classifier example_pipeline) = [0, 1] \<and>
   ColumnTransformer_transform (preprocessor example_pipeline) example_student =
     Inr [3 / 4, 1, 5 / 4, 1, 1, 0, 0, 1] \<and>
   forest_proba (classifier example_pipeline) [3 / 4, 1, 5 / 4, 1, 1, 0, 0, 1] =
     [1 - 19 / 20, 19 / 20] \<and>
   predict (process_start (Some example_pipeline)) example_student =
     (Inr (1, 19 / 20),
      \<lparr>cached_pipeline = Some example_pipeline, trained_pipeline = Some example_pipeline,
       predictions = []\<rparr>) \<and>
   RandomForestClassifier_predict (classifier example_pipeline)
     [3 / 4, 1, 5 / 4, 1, 1, 0, 0, 1] = Inr 1 \<and>
   fitted_classes (classifier tie_pipeline) = [0, 1] \<and>
   forest_proba (classifier tie_pipeline) [3 / 4, 1, 5 / 4, 1, 1, 0, 0, 1] =
     [1 - 1 / 2, 1 / 2] \<and>
   predict (process_start (Some tie_pipeline)) example_student =
     (Inr (0, 1 / 2),
      \<lparr>cached_pipeline = Some tie_pipeline, trained_pipeline = Some tie_pipeline,
       predictions = []\<rparr>) \<and>
   RandomForestClassifier_predict (classifier tie_pipeline)
     [3 / 4, 1, 5 / 4, 1, 1, 0, 0, 1] = Inr 0"
proof -
  have classes: "fitted_classes (classifier example_pipeline) = [0, 1]"
    by (simp add: example_pipeline_def)
  have row:
    "forest_proba (classifier example_pipeline) [3 / 4, 1, 5 / 4, 1, 1, 0, 0, 1] =
       [1 - 19 / 20, 19 / 20]"
    by (simp add: example_pipeline_def)
  have classes_tie: "fitted_classes (classifier tie_pipeline) = [0, 1]"
    by (simp add: tie_pipeline_def)
  have row_tie:
    "forest_proba (classifier tie_pipeline) [3 / 4, 1, 5 / 4, 1, 1, 0, 0, 1] =
       [1 - 1 / 2, 1 / 2]"
    by (simp add: tie_pipeline_def)
  show ?thesis
    using predict_label_threshold [OF load_example classes encode_example row]
      predict_label_threshold [OF load_example classes_tie encode_example_tie row_tie]
      load_example [of example_pipeline] classes encode_example row classes_tie row_tie
    by simp
qed

subsection \<open>Validation before inference\<close>

lemma build_StudentInput_error:
  "field_errors g @ field_errors f @ field_errors ge @ field_errors i @ field_errors s @
     field_errors n \<noteq> [] \<Longrightarrow>
   build_StudentInput g f ge i s n =
     Inl (InvalidInputError
       (field_errors g @ field_errors f @ field_errors ge @ field_errors i @
        field_errors s @ field_errors n))"
  by (cases g; cases f; cases ge; cases i; cases s; cases n) simp_all

lemma float_rejects:
  "(case v of None \<Rightarrow> True | Some x \<Rightarrow> x < 0 \<or> 10 < x) \<Longrightarrow>
     field_errors (float_ge0_le10 name v) = [name]"
  by (auto simp: float_ge0_le10_def split: option.splits)

lemma int_rejects:
  "(case v of None \<Rightarrow> True | Some x \<Rightarrow> x < 0) \<Longrightarrow> field_errors (int_ge0 name v) = [name]"
  by (auto simp: int_ge0_def split: option.splits)

lemma str_rejects: "field_errors (str_min_length1 name None) = [name]"
  by (simp add: str_min_length1_def)

lemma spec_offending_rejected:
  assumes "spec_offending b name"
  shows "name \<in> set
    (field_errors (float_ge0_le10 ''University_GPA'' (body_University_GPA b)) @
     field_errors (str_min_length1 ''Field_of_Study'' (body_Field_of_Study b)) @
     field_errors (str_min_length1 ''Gender'' (body_Gender b)) @
     field_errors (int_ge0 ''Internships_Completed'' (body_Internships_Completed b)) @
     field_errors (float_ge0_le10 ''Soft_Skills_Score'' (body_Soft_Skills_Score b)) @
     field_errors (float_ge0_le10 ''Networking_Score'' (body_Networking_Score b)))"
  using assms unfolding spec_offending_def
  by (elim disjE conjE)
     (simp_all only: float_rejects int_rejects str_rejects set_append Un_iff list.set
        insertI1 simp_thms)

lemma validate_rejects:
  assumes "spec_offending b name"
  shows "\<exists>names. StudentInput_validate b = Inl (InvalidInputError names) \<and> name \<in> set names"
proof -
  let ?names =
    "field_errors (float_ge0_le10 ''University_GPA'' (body_University_GPA b)) @
     field_errors (str_min_length1 ''Field_of_Study'' (body_Field_of_Study b)) @
     field_errors (str_min_length1 ''Gender'' (body_Gender b)) @
     field_errors (int_ge0 ''Internships_Completed'' (body_Internships_Completed b)) @
     field_errors (float_ge0_le10 ''Soft_Skills_Score'' (body_Soft_Skills_Score b)) @
     field_errors (float_ge0_le10 ''Networking_Score'' (body_Networking_Score b))"
  have mem: "name \<in> set ?names"
    using assms by (rule spec_offending_rejected)
  then have "?names \<noteq> []"
    by (metis empty_iff empty_set)
  then have "StudentInput_validate b = Inl (InvalidInputError ?names)"
    unfolding StudentInput_validate_def by (rule build_StudentInput_error)
  with mem show ?thesis by blast
qed

lemma form_offending_error:
  "spec_offending_form fd name \<Longrightarrow> name \<in> fst ` set (newErrors fd)"
  unfolding spec_offending_form_def newErrors_def
  by (elim disjE conjE) simp_all

lemma handleSubmit_rejected:
  "newErrors (formData st) \<noteq> [] \<Longrightarrow>
     handleSubmit st = st\<lparr>errors := newErrors (formData st)\<rparr>"
  by (simp add: handleSubmit_def validateForm_def Let_def)

lemma route_gpa_11:
  "predict_career_success s gpa_11_body = (Inl (InvalidInputError [''University_GPA'']), s)"
  by (simp add: predict_career_success_def StudentInput_validate_def gpa_11_body_def
      example_body_def float_ge0_le10_def str_min_length1_def int_ge0_def)

text \<open>
  C5.  A request body in which a numeric field is outside its documented domain or a
  required field is absent is rejected by the route with \<open>InvalidInputError\<close>, the error
  lists the offending field, and the state is the one before the request: no pipeline was
  loaded, nothing was encoded or predicted, nothing was saved, and there is no response.
  In the form, such data fail \<open>validateForm\<close>, the offending field gets an error message,
  and \<open>handleSubmit\<close> sends nothing.
\<close>

theorem invalid_input_rejected:
  "(spec_offending b name \<longrightarrow>
      (\<exists>names. predict_career_success s b = (Inl (InvalidInputError names), s) \<and>
                name \<in> set names)) \<and>
   (spec_offending_form (formData st) name \<longrightarrow>
      fst (validateForm st) = False \<and>
      name \<in> fst ` set (errors (handleSubmit st)) \<and>
      posted (handleSubmit st) = posted st)"
proof -
  have backend:
    "\<exists>names. predict_career_success s b = (Inl (InvalidInputError names), s) \<and>
              name \<in> set names"
    if "spec_offending b name"
    using validate_rejects [OF that] by (auto simp: predict_career_success_def)
  have frontend:
    "fst (validateForm st) = False \<and>
     name \<in> fst ` set (errors (handleSubmit st)) \<and>
     posted (handleSubmit st) = posted st"
    if bad: "spec_offending_form (formData st) name"
  proof -
    from bad have mem: "name \<in> fst ` set (newErrors (formData st))"
      by (rule form_offending_error)
    then have "newErrors (formData st) \<noteq> []" by auto
    then show ?thesis using mem
      by (simp add: handleSubmit_rejected validateForm_def Let_def)
  qed
  show ?thesis using backend frontend by blast
qed

theorem invalid_input_rejected_witness:
  "spec_offending gpa_11_body ''University_GPA'' \<and>
   spec_offending_form (formData gpa_11_form) ''University_GPA'' \<and>
   predict_career_success (process_start (Some example_pipeline)) gpa_11_body =
     (Inl (InvalidInputError [''University_GPA'']), process_start (Some example_pipeline)) \<and>
   (\<exists>names.
      predict_career_success (process_start (Some example_pipeline)) gpa_11_body =
        (Inl (InvalidInputError names), process_start (Some example_pipeline)) \<and>
      ''University_GPA'' \<in> set names) \<and>
   fst (validateForm gpa_11_form) = False \<and>
   ''University_GPA'' \<in> fst ` set (errors (handleSubmit gpa_11_form)) \<and>
   posted (handleSubmit gpa_11_form) = []"
proof -
  have body: "spec_offending gpa_11_body ''University_GPA''"
    by (simp add: spec_offending_def gpa_11_body_def example_body_def)
  have form: "spec_offending_form (formData gpa_11_form) ''University_GPA''"
    by (simp add: spec_offending_form_def gpa_11_form_def)
  have sent: "posted gpa_11_form = []"
    by (simp add: gpa_11_form_def)
  show ?thesis
    using invalid_input_rejected
      [of gpa_11_body "''University_GPA''" "process_start (Some example_pipeline)" gpa_11_form]
      body form sent route_gpa_11 [of "process_start (Some example_pipeline)"]
    by simp
qed

subsection \<open>Scaling a constant feature\<close>

lemma np_var_nonneg: "0 \<le> np_var xs"
proof -
  have "0 \<le> sum_list (map (\<lambda>x. (x - np_mean xs)\<^sup>2) xs)"
    by (rule sum_list_nonneg) auto
  then show ?thesis by (simp add: np_var_def)
qed

lemma np_std_zero_constant:
  assumes "xs \<noteq> []" and "np_std xs = 0"
  shows "\<forall>x\<in>set xs. x = np_mean xs"
proof -
  from assms have "sum_list (map (\<lambda>x. (x - np_mean xs)\<^sup>2) xs) = 0"
    by (simp add: np_std_def np_var_def)
  moreover have "\<forall>y\<in>set (map (\<lambda>x. (x - np_mean xs)\<^sup>2) xs). 0 \<le> y"
    by auto
  ultimately have "\<forall>y\<in>set (map (\<lambda>x. (x - np_mean xs)\<^sup>2) xs). y = 0"
    using sum_list_nonneg_eq_0_iff by blast
  then show ?thesis by auto
qed

lemma fit_scale_pos: "StandardScaler_fit xs = Inr sc \<Longrightarrow> 0 < fitted_scale sc"
proof -
  assume "StandardScaler_fit xs = Inr sc"
  then have "fitted_scale sc = handle_zeros_in_scale (np_std xs)"
    by (auto simp: StandardScaler_fit_def split: if_splits)
  moreover have "0 \<le> np_std xs"
    by (simp add: np_std_def np_var_nonneg)
  ultimately show ?thesis
    by (simp add: handle_zeros_in_scale_def)
qed

lemmas scaler_defs =
  numerical_pipeline_transform_def StandardScaler_transform_def SimpleImputer_transform_def

text \<open>
  C3, as the claim states it, fails for a value that differs from the training constant:
  a column that is 3 throughout has standard deviation 0, and the value 5 is encoded as 2.
\<close>

theorem zero_std_encoding_counterexample:
  "np_std [3, 3] = 0 \<and>
   StandardScaler_fit [3, 3] = Inr \<lparr>fitted_mean = 3, fitted_scale = 1\<rparr> \<and>
   numerical_pipeline_transform
     \<lparr>imputer_mean = 3, scaler = \<lparr>fitted_mean = 3, fitted_scale = 1\<rparr>\<rparr> (Some 5) = 2"
  by (simp add: np_std_def np_var_def np_mean_def StandardScaler_fit_def
      handle_zeros_in_scale_def scaler_defs)

text \<open>
  C3, amended.  If a numeric feature has standard deviation 0 on a non-empty training
  column, the fitted scale is 1 and a value \<open>x\<close> is encoded as \<open>x\<close> minus the training
  mean: 0 for every value of the training column, and the difference to the training
  constant for any other value.  The scale of a fitted scaler is never 0, so the
  division never divides by zero.
\<close>

theorem zero_std_encoding:
  assumes "xs \<noteq> []" and "np_std xs = 0"
  shows "StandardScaler_fit xs = Inr \<lparr>fitted_mean = np_mean xs, fitted_scale = 1\<rparr> \<and>
         numerical_pipeline_transform
           \<lparr>imputer_mean = m, scaler = \<lparr>fitted_mean = np_mean xs, fitted_scale = 1\<rparr>\<rparr>
           (Some x) = x - np_mean xs \<and>
         (x \<in> set xs \<longrightarrow>
            numerical_pipeline_transform
              \<lparr>imputer_mean = m, scaler = \<lparr>fitted_mean = np_mean xs, fitted_scale = 1\<rparr>\<rparr>
              (Some x) = 0) \<and>
         (StandardScaler_fit ys = Inr sc \<longrightarrow> fitted_scale sc \<noteq> 0)"
proof -
  from assms have all_mean: "\<forall>x\<in>set xs. x = np_mean xs"
    by (rule np_std_zero_constant)
  have "fitted_scale sc \<noteq> 0" if "StandardScaler_fit ys = Inr sc"
    using fit_scale_pos [OF that] by simp
  then show ?thesis using assms all_mean
    by (auto simp: StandardScaler_fit_def handle_zeros_in_scale_def scaler_defs)
qed

theorem zero_std_encoding_witness:
  "[3, 3] \<noteq> ([] :: real list) \<and> np_std [3, 3] = 0 \<and> np_mean [3, 3] = 3 \<and>
   StandardScaler_fit [3, 3] = Inr \<lparr>fitted_mean = 3, fitted_scale = 1\<rparr> \<and>
   numerical_pipeline_transform
     \<lparr>imputer_mean = 3, scaler = \<lparr>fitted_mean = 3, fitted_scale = 1\<rparr>\<rparr> (Some 3) = 0 \<and>
   numerical_pipeline_transform
     \<lparr>imputer_mean = 3, scaler = \<lparr>fitted_mean = 3, fitted_scale = 1\<rparr>\<rparr> (Some 5) = 5 - 3 \<and>
   fitted_scale \<lparr>fitted_mean = 3, fitted_scale = 1\<rparr> \<noteq> 0"
proof -
  have nonempty: "[3, 3] \<noteq> ([] :: real list)"
    by simp
  have mean: "np_mean [3, 3] = 3"
    by (simp add: np_mean_def)
  have std: "np_std [3, 3] = 0"
    by (simp add: np_std_def np_var_def mean)
  show ?thesis
    using zero_std_encoding [OF nonempty std, of 3 3 "[3, 3]" "\<lparr>fitted_mean = 3, fitted_scale = 1\<rparr>"]
      zero_std_encoding [OF nonempty std, of 3 5]
      std mean
    by simp
qed

subsection \<open>Categories unseen in training\<close>

lemma onehot_unknown:
  "v \<notin> set cats \<Longrightarrow>
     map (\<lambda>c. if c = v then 1 else 0) cats = replicate (length cats) (0::real)"
  by (induction cats) auto

lemma categorical_total:
  "categorical_pipeline_transform cp v =
     Inr (map (\<lambda>c. if c = SimpleImputer_transform (imputer_most_frequent cp) v then 1 else 0)
            (fitted_categories cp))"
  by (simp add: categorical_pipeline_transform_def OneHotEncoder_transform_def)

text \<open>
  C4.  A record whose field of study is not in the fitted vocabulary is encoded without
  an error, and the indicator block of the field of study is zero throughout; the same
  holds for the gender.
\<close>

theorem unknown_category_encoding:
  "(Field_of_Study r \<notin> set (fitted_categories (cat_Field_of_Study ct)) \<longrightarrow>
      (\<exists>gender_block.
         categorical_pipeline_transform (cat_Gender ct) (Some (Gender r)) = Inr gender_block \<and>
         ColumnTransformer_transform ct r =
           Inr (numerical_block ct r @
                replicate (length (fitted_categories (cat_Field_of_Study ct))) 0 @
                gender_block))) \<and>
   (Gender r \<notin> set (fitted_categories (cat_Gender ct)) \<longrightarrow>
      (\<exists>field_block.
         categorical_pipeline_transform (cat_Field_of_Study ct) (Some (Field_of_Study r)) =
           Inr field_block \<and>
         ColumnTransformer_transform ct r =
           Inr (numerical_block ct r @ field_block @
                replicate (length (fitted_categories (cat_Gender ct))) 0)))"
  by (simp add: ColumnTransformer_transform_def categorical_total SimpleImputer_transform_def
      onehot_unknown)

theorem unknown_category_encoding_witness:
  "Field_of_Study unknown_field_student \<notin>
     set (fitted_categories (cat_Field_of_Study (preprocessor example_pipeline))) \<and>
   ColumnTransformer_transform (preprocessor example_pipeline) unknown_field_student =
     Inr ([3 / 4, 1, 5 / 4, 1] @ [0, 0] @ [0, 1]) \<and>
   Gender unknown_gender_student \<notin>
     set (fitted_categories (cat_Gender (preprocessor example_pipeline))) \<and>
   ColumnTransformer_transform (preprocessor example_pipeline) unknown_gender_student =
     Inr ([3 / 4, 1, 5 / 4, 1] @ [1, 0] @ [0, 0])"
proof -
  have unknown_field:
    "Field_of_Study unknown_field_student \<notin>
       set (fitted_categories (cat_Field_of_Study (preprocessor example_pipeline)))"
    by (simp add: unknown_field_student_def example_student_def example_pipeline_def)
  have unknown_gender:
    "Gender unknown_gender_student \<notin>
       set (fitted_categories (cat_Gender (preprocessor example_pipeline)))"
    by (simp add: unknown_gender_student_def example_student_def example_pipeline_def)
  have gender_block:
    "categorical_pipeline_transform (cat_Gender (preprocessor example_pipeline))
       (Some (Gender unknown_field_student)) = Inr [0, 1]"
    by (simp add: categorical_total SimpleImputer_transform_def unknown_field_student_def
        example_student_def example_pipeline_def)
  have field_block:
    "categorical_pipeline_transform (cat_Field_of_Study (preprocessor example_pipeline))
       (Some (Field_of_Study unknown_gender_student)) = Inr [1, 0]"
    by (simp add: categorical_total SimpleImputer_transform_def unknown_gender_student_def
        example_student_def example_pipeline_def)
  have numbers:
    "numerical_block (preprocessor example_pipeline) unknown_field_student =
       [3 / 4, 1, 5 / 4, 1] \<and>
     numerical_block (preprocessor example_pipeline) unknown_gender_student =
       [3 / 4, 1, 5 / 4, 1]"
    by (simp add: numerical_block_def scaler_defs unknown_field_student_def
        unknown_gender_student_def example_student_def example_pipeline_def)
  have vocabulary:
    "length (fitted_categories (cat_Field_of_Study (preprocessor example_pipeline))) = 2 \<and>
     length (fitted_categories (cat_Gender (preprocessor example_pipeline))) = 2"
    by (simp add: example_pipeline_def)
  show ?thesis
    using unknown_category_encoding [of unknown_field_student "preprocessor example_pipeline"]
      unknown_category_encoding [of unknown_gender_student "preprocessor example_pipeline"]
      unknown_field unknown_gender gender_block field_block numbers vocabulary
    by (simp add: numeral_2_eq_2)
qed

subsection \<open>Numeric fields of the form\<close>

lemma or_zero_not_NaN: "or_zero x \<noteq> NaN"
  by (cases x) (simp_all add: or_zero_def)

lemma set_number_field_no_NaN:
  "NaN \<notin> set (numeric_fields fd) \<Longrightarrow> v \<noteq> NaN \<Longrightarrow>
     NaN \<notin> set (numeric_fields (set_number_field name v fd))"
  by (simp add: numeric_fields_def set_number_field_def)

lemma set_string_field_numeric:
  "numeric_fields (set_string_field name v fd) = numeric_fields fd"
  by (simp add: numeric_fields_def set_string_field_def)

lemma handleChange_no_NaN: "no_NaN st \<Longrightarrow> no_NaN (handleChange parseFloat name text st)"
  by (simp add: no_NaN_def handleChange_def set_string_field_numeric
      set_number_field_no_NaN or_zero_not_NaN)

lemma handleSubmit_no_NaN: "no_NaN st \<Longrightarrow> no_NaN (handleSubmit st)"
  by (cases "newErrors (formData st) = []")
     (auto simp: no_NaN_def handleSubmit_def validateForm_def Let_def)

lemma handle_no_NaN: "no_NaN st \<Longrightarrow> no_NaN (handle parseFloat st e)"
  by (cases e) (simp_all add: handleChange_no_NaN handleSubmit_no_NaN)

lemma foldl_handle_no_NaN:
  "no_NaN st \<Longrightarrow> no_NaN (foldl (handle parseFloat) st events)"
  by (induction events arbitrary: st) (simp_all add: handle_no_NaN)

lemma initial_no_NaN: "no_NaN initial_form_state"
  by (simp add: no_NaN_def initial_form_state_def numeric_fields_def)

lemma handleChange_stores:
  "name \<in> {''University_GPA'', ''Internships_Completed'', ''Soft_Skills_Score'',
            ''Networking_Score''} \<Longrightarrow>
     get_number_field name (formData (handleChange parseFloat name text st)) =
       Some (or_zero (parseFloat text))"
  by (auto simp: handleChange_def get_number_field_def set_number_field_def)

lemma run_example_events:
  "posted (run_form example_parseFloat example_events) =
     [\<lparr>form_University_GPA = Finite 8.5, form_Field_of_Study = ''Physics'',
       form_Gender = ''Male'', form_Internships_Completed = Finite 0,
       form_Soft_Skills_Score = Finite 0, form_Networking_Score = Finite 0\<rparr>]"
  by (simp add: run_form_def example_events_def example_parseFloat_def initial_form_state_def
      handleChange_def set_string_field_def set_number_field_def or_zero_def
      handleSubmit_def validateForm_def newErrors_def)

text \<open>
  C10.  A change of one of the four numeric fields stores \<open>parseFloat(value)\<close> when that
  is truthy and 0 otherwise; an entry that parses to NaN is stored as 0.  From the
  initial form on, whatever is typed and whenever the form is submitted, no numeric field
  of the form data is NaN, and no numeric field of a body that was sent is NaN; the
  record always holds all four fields.
\<close>

theorem numeric_change_coerced:
  "(name \<in> {''University_GPA'', ''Internships_Completed'', ''Soft_Skills_Score'',
             ''Networking_Score''} \<longrightarrow>
      get_number_field name (formData (handleChange parseFloat name text st)) =
        Some (if truthy (parseFloat text) then parseFloat text else Finite 0)) \<and>
   (parseFloat text = NaN \<longrightarrow> or_zero (parseFloat text) = Finite 0) \<and>
   NaN \<notin> set (numeric_fields (formData (run_form parseFloat events))) \<and>
   (\<forall>payload\<in>set (posted (run_form parseFloat events)). NaN \<notin> set (numeric_fields payload))"
proof -
  have "no_NaN (run_form parseFloat events)"
    unfolding run_form_def using initial_no_NaN by (rule foldl_handle_no_NaN)
  then show ?thesis
    using handleChange_stores [of name parseFloat "text" st]
    by (simp add: no_NaN_def or_zero_def)
qed

theorem numeric_change_coerced_witness:
  "''Internships_Completed'' \<in>
     {''University_GPA'', ''Internships_Completed'', ''Soft_Skills_Score'',
      ''Networking_Score''} \<and>
   example_parseFloat ''abc'' = NaN \<and>
   get_number_field ''Internships_Completed''
     (formData
        (handleChange example_parseFloat ''Internships_Completed'' ''abc'' initial_form_state)) =
     Some (Finite 0) \<and>
   posted (run_form example_parseFloat example_events) =
     [\<lparr>form_University_GPA = Finite 8.5, form_Field_of_Study = ''Physics'',
       form_Gender = ''Male'', form_Internships_Completed = Finite 0,
       form_Soft_Skills_Score = Finite 0, form_Networking_Score = Finite 0\<rparr>] \<and>
   NaN \<notin> set (numeric_fields
     \<lparr>form_University_GPA = Finite 8.5, form_Field_of_Study = ''Physics'',
      form_Gender = ''Male'', form_Internships_Completed = Finite 0,
      form_Soft_Skills_Score = Finite 0, form_Networking_Score = Finite 0\<rparr>)"
proof -
  have parsed: "example_parseFloat ''abc'' = NaN"
    by (simp add: example_parseFloat_def)
  show ?thesis
    using numeric_change_coerced
      [of "''Internships_Completed''" example_parseFloat "''abc''" initial_form_state
          example_events]
      parsed run_example_events
    by simp
qed

end
